theory Spec2Isabelle
  imports Main
begin

section \<open>Bytes, Python slices and exceptions\<close>

text \<open>
  The driver in \<^verbatim>\<open>microscope/controllers/vortran.py\<close> talks to a Vortran Stradus
  VersaLase over a serial line.  Python \<^verbatim>\<open>bytes\<close> are lists of 8-bit characters.
\<close>

type_synonym bytes = string

abbreviation CR :: char where "CR \<equiv> CHR 0x0D"
abbreviation LF :: char where "LF \<equiv> CHR 0x0A"

definition CRLF :: bytes where
  "CRLF = [CR, LF]"

definition CRCRLF :: bytes where
  "CRCRLF = [CR, CR, LF]"

text \<open>
  \<^verbatim>\<open>xs[-k:]\<close>: the last \<open>k\<close> elements, the whole of \<open>xs\<close> when it is shorter
  (and when \<open>k\<close> is 0, since \<^verbatim>\<open>-0\<close> is \<^verbatim>\<open>0\<close>).
  \<^verbatim>\<open>xs[a:-k]\<close> for a literal \<open>k > 0\<close>: from index \<open>a\<close> up to (not including) the
  last \<open>k\<close> elements; empty when the bounds cross.
  \<^verbatim>\<open>xs[:n]\<close> is \<open>take n xs\<close>, and \<^verbatim>\<open>xs.startswith(p)\<close> compares the first
  \<open>len(p)\<close> elements with \<open>p\<close>.
\<close>

definition py_tail :: "nat \<Rightarrow> 'a list \<Rightarrow> 'a list" where
  "py_tail k xs = (if k = 0 then xs else drop (length xs - k) xs)"

definition py_slice :: "nat \<Rightarrow> nat \<Rightarrow> 'a list \<Rightarrow> 'a list" where
  "py_slice a k xs = drop a (take (length xs - k) xs)"

definition startswith :: "'a list \<Rightarrow> 'a list \<Rightarrow> bool" where
  "startswith xs p = (take (length p) xs = p)"

definition endswith :: "'a list \<Rightarrow> 'a list \<Rightarrow> bool" where
  "endswith xs p = (length p \<le> length xs \<and> drop (length xs - length p) xs = p)"

text \<open>
  The exceptions the module can raise: its own \<^verbatim>\<open>microscope.DeviceError\<close> with a
  message, a failed \<^verbatim>\<open>assert\<close>, and the \<^verbatim>\<open>ValueError\<close> of the builtins
  \<^verbatim>\<open>int\<close> and \<^verbatim>\<open>float\<close>.
\<close>

datatype exn = DeviceError string | AssertionError | ValueError

fun is_DeviceError :: "exn \<Rightarrow> bool" where
  "is_DeviceError (DeviceError m) = True"
| "is_DeviceError AssertionError = False"
| "is_DeviceError ValueError = False"

subsection \<open>Formatting\<close>

text \<open>\<^verbatim>\<open>"%d" % n\<close> for a Python int.\<close>

fun str_nat :: "nat \<Rightarrow> string" where
  "str_nat n =
     (if n < 10 then [''0123456789'' ! n]
      else str_nat (n div 10) @ [''0123456789'' ! (n mod 10)])"

declare str_nat.simps [simp del]

definition str_int :: "int \<Rightarrow> string" where
  "str_int i = (if i < 0 then CHR ''-'' # str_nat (nat (- i)) else str_nat (nat i))"

text \<open>
  \<^verbatim>\<open>"%s" % answer\<close> for a bytes object is its \<^verbatim>\<open>repr\<close>: the letter b, a quote
  (a double quote when the bytes hold a single quote and no double quote), and the
  bytes with backslash, the quote, tab, newline and carriage return escaped and every
  byte outside the printable ASCII range written \<^verbatim>\<open>\xNN\<close>.
\<close>

abbreviation QUOTE :: char where "QUOTE \<equiv> CHR 0x27"
abbreviation DQUOTE :: char where "DQUOTE \<equiv> CHR 0x22"
abbreviation BACKSLASH :: char where "BACKSLASH \<equiv> CHR 0x5C"

definition hex_digit :: "nat \<Rightarrow> char" where
  "hex_digit n = ''0123456789abcdef'' ! n"

definition repr_byte :: "char \<Rightarrow> char \<Rightarrow> string" where
  "repr_byte quote c =
     (if c = quote \<or> c = BACKSLASH then [BACKSLASH, c]
      else if c = CHR 0x09 then [BACKSLASH, CHR ''t'']
      else if c = LF then [BACKSLASH, CHR ''n'']
      else if c = CR then [BACKSLASH, CHR ''r'']
      else if (of_char c :: nat) < 32 \<or> 127 \<le> (of_char c :: nat)
        then [BACKSLASH, CHR ''x'', hex_digit (of_char c div 16), hex_digit (of_char c mod 16)]
      else [c])"

definition bytes_repr :: "bytes \<Rightarrow> string" where
  "bytes_repr b =
     (let quote = (if QUOTE \<in> set b \<and> DQUOTE \<notin> set b then DQUOTE else QUOTE)
      in CHR ''b'' # quote # concat (map (repr_byte quote) b) @ [quote])"

section \<open>Parsing replies\<close>

text \<open>
  \<^verbatim>\<open>_parse_bool\<close>: the assertion guards the comparison.  (Assertions are
  taken as enabled, as they are unless the interpreter runs with \<^verbatim>\<open>-O\<close>.)
\<close>

definition parse_bool :: "bytes \<Rightarrow> exn + bool" where
  "parse_bool answer =
     (if \<not> (answer = ''0'' \<or> answer = ''1'') then Inl AssertionError
      else Inr (answer = ''1''))"

text \<open>
  The decoding half of \<^verbatim>\<open>_VersaLaseConnection._command\<close> (everything after the
  \<^verbatim>\<open>with\<close> block): the reply \<open>answer\<close> read for \<open>command\<close> is rejected, or
  stripped of \<open>len(command) + 1\<close> leading bytes and of its terminator.
\<close>

definition decode_answer :: "bytes \<Rightarrow> bytes \<Rightarrow> exn + bytes" where
  "decode_answer command answer =
     (if answer = [CR, LF] \<or> answer = []
        then Inl (DeviceError (''Failed to set command '' @ bytes_repr answer))
      else if py_tail 3 answer = [CR, CR, LF] then
        (if py_slice (length command + 1) 3 answer = []
           then Inr (take (length command) answer)
         else Inr (py_slice (length command + 1) 3 answer))
      else if \<not> (py_tail 2 answer = [CR, LF]) then Inl AssertionError
      else
        (if py_slice (length command + 1) 2 answer = []
           then Inr (take (length command) answer)
         else Inr (py_slice (length command + 1) 2 answer)))"

text \<open>
  The builtin \<^verbatim>\<open>int\<close> on bytes, base 10: blanks (space, tab, newline, vertical tab,
  form feed, carriage return) are skipped on both sides, one sign may come first, then
  at least one decimal digit, with single underscores allowed between digits.
  \<open>None\<close> stands for \<^verbatim>\<open>ValueError\<close>.  (The interpreter's limit on the number of
  digits, a configurable setting of recent versions, is left out.)
\<close>

definition is_space :: "char \<Rightarrow> bool" where
  "is_space c = (c \<in> set [CHR 0x20, CHR 0x09, LF, CHR 0x0B, CHR 0x0C, CR])"

definition is_digit :: "char \<Rightarrow> bool" where
  "is_digit c = (48 \<le> (of_char c :: nat) \<and> (of_char c :: nat) \<le> 57)"

fun digits_value :: "int \<Rightarrow> bool \<Rightarrow> bytes \<Rightarrow> int option" where
  "digits_value acc prev_digit [] = (if prev_digit then Some acc else None)"
| "digits_value acc prev_digit (c # cs) =
     (if is_digit c then digits_value (acc * 10 + (of_char c - 48)) True cs
      else if c = CHR ''_'' \<and> prev_digit then digits_value acc False cs
      else None)"

definition strip_blanks :: "bytes \<Rightarrow> bytes" where
  "strip_blanks b = rev (dropWhile is_space (rev (dropWhile is_space b)))"

definition py_int :: "bytes \<Rightarrow> int option" where
  "py_int b =
     (case strip_blanks b of
        [] \<Rightarrow> None
      | c # cs \<Rightarrow>
          if c = CHR ''-'' then map_option uminus (digits_value 0 False cs)
          else if c = CHR ''+'' then digits_value 0 False cs
          else digits_value 0 False (c # cs))"

text \<open>
  Python floats are not modelled: the driver only parses them (\<^verbatim>\<open>float(reply)\<close>,
  \<open>None\<close> for \<^verbatim>\<open>ValueError\<close>), multiplies two of them, compares two with
  \<^verbatim>\<open>!=\<close> and formats one with \<^verbatim>\<open>b"%.1f"\<close>.  These four operations are parameters
  of the model, over any type \<open>'f\<close> of float values.
\<close>

record 'f float_ops =
  float_of_bytes :: "bytes \<Rightarrow> 'f option"
  fmul :: "'f \<Rightarrow> 'f \<Rightarrow> 'f"
  fne :: "'f \<Rightarrow> 'f \<Rightarrow> bool"
  fmt_1f :: "'f \<Rightarrow> bytes"

text \<open>
  A typed getter is \<^verbatim>\<open>int(...)\<close>, \<^verbatim>\<open>float(...)\<close> or \<^verbatim>\<open>_parse_bool(...)\<close> applied
  to the answer of a query.  An exception of the query passes through; one of the
  conversion is raised after the query has run, in the state the query left.
\<close>

definition int_of_bytes :: "bytes \<Rightarrow> exn + int" where
  "int_of_bytes b = (case py_int b of None \<Rightarrow> Inl ValueError | Some n \<Rightarrow> Inr n)"

definition float_of :: "'f float_ops \<Rightarrow> bytes \<Rightarrow> exn + 'f" where
  "float_of fl b = (case float_of_bytes fl b of None \<Rightarrow> Inl ValueError | Some x \<Rightarrow> Inr x)"

definition converted :: "(bytes \<Rightarrow> exn + 'a) \<Rightarrow> (exn + bytes) \<times> 's \<Rightarrow> (exn + 'a) \<times> 's" where
  "converted conv r = (case r of (Inl e, s') \<Rightarrow> (Inl e, s') | (Inr answer, s') \<Rightarrow> (conv answer, s'))"

section \<open>The serial transport\<close>

text \<open>
  Modelled from the spec: the shared serial port (\<^verbatim>\<open>microscope._utils.SharedSerial\<close>
  over \<^verbatim>\<open>serial.Serial\<close>), of which the spec lists \<^verbatim>\<open>write(bytes)\<close>,
  \<^verbatim>\<open>readline()\<close>, \<^verbatim>\<open>read_until(delimiter)\<close>, \<^verbatim>\<open>readlines()\<close> (drain) and a
  lock.  The port holds the bytes received and not yet read (\<open>rx\<close>) and the log of
  every write (\<open>tx\<close>).  The device at the other end is any deterministic machine: it
  has a state \<open>dev\<close> and answers each write with the bytes \<open>respond\<close> gives.  A read
  takes bytes up to and including the first terminator; when none is pending it times
  out and returns what there is.  In this sequential model taking the lock does
  nothing.
\<close>

record 'd serial =
  respond :: "'d \<Rightarrow> bytes \<Rightarrow> bytes \<times> 'd"
  dev :: 'd
  rx :: bytes
  tx :: "bytes list"

definition serial_write :: "'d serial \<Rightarrow> bytes \<Rightarrow> 'd serial" where
  "serial_write s b =
     (case respond s (dev s) b of
        (reply, d) \<Rightarrow> s\<lparr>dev := d, rx := rx s @ reply, tx := tx s @ [b]\<rparr>)"

fun read_until_from :: "bytes \<Rightarrow> bytes \<Rightarrow> bytes \<Rightarrow> bytes \<times> bytes" where
  "read_until_from expected line [] = (line, [])"
| "read_until_from expected line (c # pending) =
     (if py_tail (length expected) (line @ [c]) = expected then (line @ [c], pending)
      else read_until_from expected (line @ [c]) pending)"

definition serial_read_until :: "'d serial \<Rightarrow> bytes \<Rightarrow> bytes \<times> 'd serial" where
  "serial_read_until s expected =
     (case read_until_from expected [] (rx s) of (line, rest) \<Rightarrow> (line, s\<lparr>rx := rest\<rparr>))"

definition serial_readline :: "'d serial \<Rightarrow> bytes \<times> 'd serial" where
  "serial_readline s = serial_read_until s [LF]"

definition serial_readlines :: "'d serial \<Rightarrow> 'd serial" where
  "serial_readlines s = s\<lparr>rx := []\<rparr>"

section \<open>The connection to the VersaLase\<close>

text \<open>
  The \<^verbatim>\<open>with self._serial.lock\<close> block of \<^verbatim>\<open>_command\<close>: write the command and a
  carriage return, read and drop one line, read the answer up to CR LF.
\<close>

definition transact :: "'d serial \<Rightarrow> bytes \<Rightarrow> bytes \<times> 'd serial" where
  "transact s command =
     (case serial_readline (serial_write s (command @ [CR])) of
        (empty_line, s2) \<Rightarrow> serial_read_until s2 [CR, LF])"

text \<open>\<^verbatim>\<open>_VersaLaseConnection._command\<close>.\<close>

definition command :: "'d serial \<Rightarrow> bytes \<Rightarrow> (exn + bytes) \<times> 'd serial" where
  "command s cmd = (case transact s cmd of (answer, s') \<Rightarrow> (decode_answer cmd answer, s'))"

text \<open>\<^verbatim>\<open>_VersaLaseConnection.__init__\<close>: the handshake.\<close>

definition VersaLaseConnection_init :: "'d serial \<Rightarrow> (exn + unit) \<times> 'd serial" where
  "VersaLaseConnection_init s =
     (case serial_readline (serial_write (serial_readlines s) (''?SPV'' @ [CR])) of
        (empty_line, s2) \<Rightarrow>
          if empty_line \<noteq> [CR, LF] then (Inl (DeviceError ''not a Vortran Laser device''), s2)
          else
            (case serial_readline s2 of
               (answer, s3) \<Rightarrow>
                 if \<not> startswith answer ''?SPV=''
                   then (Inl (DeviceError ''not a Vortran VersaLase device''), s3)
                 else
                   (case command s3 ''ECHO=0'' of
                      (Inl e, s4) \<Rightarrow> (Inl e, s4)
                    | (Inr a, s4) \<Rightarrow>
                        (case command s4 ''PROMPT=0'' of
                           (Inl e, s5) \<Rightarrow> (Inl e, s5)
                         | (Inr b, s5) \<Rightarrow> (Inr (), serial_readlines s5)))))"

text \<open>\<^verbatim>\<open>query\<close> and \<^verbatim>\<open>param_command\<close> (which drops the answer).\<close>

definition query :: "'d serial \<Rightarrow> bytes \<Rightarrow> (exn + bytes) \<times> 'd serial" where
  "query s name = command s (''?'' @ name)"

definition param_command :: "'d serial \<Rightarrow> bytes \<Rightarrow> bytes \<Rightarrow> (exn + unit) \<times> 'd serial" where
  "param_command s name val =
     (case command s (name @ ''='' @ val) of
        (Inl e, s') \<Rightarrow> (Inl e, s')
      | (Inr answer, s') \<Rightarrow> (Inr (), s'))"

text \<open>\<^verbatim>\<open>base_plate_temperature\<close>: \<^verbatim>\<open>int(self.query(b"BPT"))\<close>.\<close>

definition base_plate_temperature :: "'d serial \<Rightarrow> (exn + int) \<times> 'd serial" where
  "base_plate_temperature s = converted int_of_bytes (query s ''BPT'')"

section \<open>One laser of the VersaLase\<close>

text \<open>\<^verbatim>\<open>_VersaLaseLaserConnection\<close>: the shared connection and the laser's prefix.\<close>

record laser_connection =
  param_prefix :: bytes

definition laser_query :: "'d serial \<Rightarrow> laser_connection \<Rightarrow> bytes \<Rightarrow> (exn + bytes) \<times> 'd serial" where
  "laser_query s lc name = command s (param_prefix lc @ ''?'' @ name)"

definition laser_command ::
  "'d serial \<Rightarrow> laser_connection \<Rightarrow> bytes \<Rightarrow> bytes \<Rightarrow> (exn + unit) \<times> 'd serial" where
  "laser_command s lc name val = param_command s (param_prefix lc @ name) val"

definition bool_value :: "bool \<Rightarrow> bytes" where
  "bool_value state = (if state then ''1'' else ''0'')"

definition set_delay :: "'d serial \<Rightarrow> laser_connection \<Rightarrow> bool \<Rightarrow> (exn + unit) \<times> 'd serial" where
  "set_delay s lc state = laser_command s lc ''DELAY'' (bool_value state)"

definition set_emission :: "'d serial \<Rightarrow> laser_connection \<Rightarrow> bool \<Rightarrow> (exn + unit) \<times> 'd serial" where
  "set_emission s lc state = laser_command s lc ''LE'' (bool_value state)"

definition set_power ::
  "'f float_ops \<Rightarrow> 'd serial \<Rightarrow> laser_connection \<Rightarrow> 'f \<Rightarrow> (exn + unit) \<times> 'd serial" where
  "set_power fl s lc pw = laser_command s lc ''LP'' (fmt_1f fl pw)"

definition set_pulse_mode :: "'d serial \<Rightarrow> laser_connection \<Rightarrow> bool \<Rightarrow> (exn + unit) \<times> 'd serial" where
  "set_pulse_mode s lc state = laser_command s lc ''PUL'' (bool_value state)"

text \<open>The typed getters of a laser.\<close>

definition get_emission_status :: "'d serial \<Rightarrow> laser_connection \<Rightarrow> (exn + bool) \<times> 'd serial" where
  "get_emission_status s lc = converted parse_bool (laser_query s lc ''LE'')"

definition get_operating_hours :: "'d serial \<Rightarrow> laser_connection \<Rightarrow> (exn + int) \<times> 'd serial" where
  "get_operating_hours s lc = converted int_of_bytes (laser_query s lc ''LH'')"

definition get_power ::
  "'f float_ops \<Rightarrow> 'd serial \<Rightarrow> laser_connection \<Rightarrow> (exn + 'f) \<times> 'd serial" where
  "get_power fl s lc = converted (float_of fl) (laser_query s lc ''LP'')"

definition get_power_setting ::
  "'f float_ops \<Rightarrow> 'd serial \<Rightarrow> laser_connection \<Rightarrow> (exn + 'f) \<times> 'd serial" where
  "get_power_setting fl s lc = converted (float_of fl) (laser_query s lc ''LPS'')"

definition get_wavelength :: "'d serial \<Rightarrow> laser_connection \<Rightarrow> (exn + int) \<times> 'd serial" where
  "get_wavelength s lc = converted int_of_bytes (laser_query s lc ''LW'')"

definition get_max_power ::
  "'f float_ops \<Rightarrow> 'd serial \<Rightarrow> laser_connection \<Rightarrow> (exn + 'f) \<times> 'd serial" where
  "get_max_power fl s lc = converted (float_of fl) (laser_query s lc ''MAXP'')"

definition get_pulse_power :: "'d serial \<Rightarrow> laser_connection \<Rightarrow> (exn + int) \<times> 'd serial" where
  "get_pulse_power s lc = converted int_of_bytes (laser_query s lc ''PP'')"

definition get_pulse_mode :: "'d serial \<Rightarrow> laser_connection \<Rightarrow> (exn + bool) \<times> 'd serial" where
  "get_pulse_mode s lc = converted parse_bool (laser_query s lc ''PUL'')"

text \<open>
  \<^verbatim>\<open>_VersaLaseLaserConnection.__init__\<close>: the two probes, read the wavelength and
  set the delay to 0, inside \<^verbatim>\<open>try\<close>; \<^verbatim>\<open>except microscope.DeviceError\<close> raises
  a new \<^verbatim>\<open>DeviceError\<close>, and every other exception passes through.
\<close>

definition no_laser :: "int \<Rightarrow> exn \<Rightarrow> exn" where
  "no_laser laser_number ex =
     (case ex of
        DeviceError m \<Rightarrow>
          DeviceError (''failed to get laser wavelength, probably no laser '' @ str_int laser_number)
      | AssertionError \<Rightarrow> AssertionError
      | ValueError \<Rightarrow> ValueError)"

definition LaserConnection_init ::
  "'d serial \<Rightarrow> int \<Rightarrow> (exn + laser_connection) \<times> 'd serial" where
  "LaserConnection_init s laser_number =
     (let lc = \<lparr>param_prefix = str_int laser_number @ ''.''\<rparr> in
      case get_wavelength s lc of
        (Inl ex, s1) \<Rightarrow> (Inl (no_laser laser_number ex), s1)
      | (Inr w, s1) \<Rightarrow>
          (case set_delay s1 lc False of
             (Inl ex, s2) \<Rightarrow> (Inl (no_laser laser_number ex), s2)
           | (Inr u, s2) \<Rightarrow> (Inr lc, s2)))"

text \<open>
  \<^verbatim>\<open>_VersaLaseLaser\<close>: the laser's connection, the maximum power, the saved power
  and the tracked pulse mode, the last three read from the device by \<^verbatim>\<open>__init__\<close>.
  (The two \<^verbatim>\<open>add_setting\<close> calls store getters and send nothing.)  When
  \<^verbatim>\<open>__init__\<close> raises, the object it was building is left behind; the exception
  is returned with the \<^verbatim>\<open>_conn\<close> of that object, which is set once the laser
  connection has been constructed and missing before.
\<close>

record 'f laser =
  conn :: laser_connection
  max_power :: 'f
  save_power :: 'f
  track_digital_modulation :: bool

definition Laser_init ::
  "'f float_ops \<Rightarrow> 'd serial \<Rightarrow> int \<Rightarrow>
     ((exn \<times> laser_connection option) + 'f laser) \<times> 'd serial" where
  "Laser_init fl s laser_number =
     (case LaserConnection_init s laser_number of
        (Inl e, s1) \<Rightarrow> (Inl (e, None), s1)
      | (Inr lc, s1) \<Rightarrow>
          (case get_max_power fl s1 lc of
             (Inl e, s2) \<Rightarrow> (Inl (e, Some lc), s2)
           | (Inr mp, s2) \<Rightarrow>
               (case get_power_setting fl s2 lc of
                  (Inl e, s3) \<Rightarrow> (Inl (e, Some lc), s3)
                | (Inr sp, s3) \<Rightarrow>
                    (case get_pulse_mode s3 lc of
                       (Inl e, s4) \<Rightarrow> (Inl (e, Some lc), s4)
                     | (Inr pm, s4) \<Rightarrow>
                         (Inr \<lparr>conn = lc, max_power = mp, save_power = sp,
                               track_digital_modulation = pm\<rparr>, s4)))))"

text \<open>
  \<^verbatim>\<open>_do_set_power\<close>: the laser object is returned too, since the failing branch
  changes \<^verbatim>\<open>_save_power\<close> before it raises.
\<close>

definition do_set_power ::
  "'f float_ops \<Rightarrow> 'd serial \<Rightarrow> 'f laser \<Rightarrow> 'f \<Rightarrow> (exn + unit) \<times> 'd serial \<times> 'f laser" where
  "do_set_power fl s l pw =
     (case get_emission_status s (conn l) of
        (Inl e, s1) \<Rightarrow> (Inl e, s1, l)
      | (Inr on, s1) \<Rightarrow>
          if on = True then
            (case set_power fl s1 (conn l) (fmul fl pw (max_power l)) of
               (r, s2) \<Rightarrow> (r, s2, l))
          else
            (Inl (DeviceError
                ''Failed to set power, laser is not enabled. But power setting has been saved''),
             s1, l\<lparr>save_power := fmul fl pw (max_power l)\<rparr>))"

text \<open>\<^verbatim>\<open>_do_enable\<close>.\<close>

definition do_enable ::
  "'f float_ops \<Rightarrow> 'd serial \<Rightarrow> 'f laser \<Rightarrow> (exn + unit) \<times> 'd serial" where
  "do_enable fl s l =
     (case set_emission s (conn l) True of
        (Inl e, s1) \<Rightarrow> (Inl e, s1)
      | (Inr u, s1) \<Rightarrow>
          (case get_power_setting fl s1 (conn l) of
             (Inl e, s2) \<Rightarrow> (Inl e, s2)
           | (Inr ps, s2) \<Rightarrow>
               if fne fl ps (save_power l) then set_power fl s2 (conn l) (save_power l)
               else
                 (case get_pulse_mode s2 (conn l) of
                    (Inl e, s3) \<Rightarrow> (Inl e, s3)
                  | (Inr pm, s3) \<Rightarrow>
                      if pm \<noteq> track_digital_modulation l
                        then set_pulse_mode s3 (conn l) (track_digital_modulation l)
                      else (Inr (), s3))))"

text \<open>\<^verbatim>\<open>_do_disable\<close>, which only needs the laser's connection.\<close>

definition do_disable :: "'d serial \<Rightarrow> laser_connection \<Rightarrow> (exn + unit) \<times> 'd serial" where
  "do_disable s lc = set_emission s lc False"

text \<open>
  The base class \<^verbatim>\<open>microscope.abc.Device\<close> is not among the source files, and the
  specification does not describe it.  It is modelled from the library: when a device
  object is destroyed, \<^verbatim>\<open>__del__\<close> calls \<^verbatim>\<open>shutdown\<close>, which calls
  \<^verbatim>\<open>disable\<close> and with it \<^verbatim>\<open>_do_disable\<close>, and no exception of that call gets
  out (\<^verbatim>\<open>_do_shutdown\<close> does nothing).  For a laser object left without
  \<^verbatim>\<open>_conn\<close> the call fails on the missing attribute before anything is written.
\<close>

definition del_laser :: "'d serial \<Rightarrow> laser_connection option \<Rightarrow> 'd serial" where
  "del_laser s dropped = (case dropped of None \<Rightarrow> s | Some lc \<Rightarrow> snd (do_disable s lc))"

section \<open>The controller\<close>

text \<open>
  A Python dict keeps its keys in insertion order; assigning to a key that is present
  replaces the value in place.
\<close>

fun dict_set :: "('k \<times> 'v) list \<Rightarrow> 'k \<Rightarrow> 'v \<Rightarrow> ('k \<times> 'v) list" where
  "dict_set [] k v = [(k, v)]"
| "dict_set ((k', v') # kvs) k v =
     (if k' = k then (k, v) # kvs else (k', v') # dict_set kvs k v)"

definition laser_name :: "int \<Rightarrow> string" where
  "laser_name i = ''laser'' @ str_int i"

text \<open>
  The \<^verbatim>\<open>for\<close> loop of \<^verbatim>\<open>StradusVersaLase.__init__\<close> over the slots still to try,
  with the dict \<^verbatim>\<open>self._lasers\<close> and the lines the module has logged so far.  Only
  \<^verbatim>\<open>microscope.DeviceError\<close> is caught.  When the \<^verbatim>\<open>except\<close> clause is left the
  exception is released, and with it the last reference to the laser object whose
  constructor raised: the object is destroyed (reference counting) before the next
  slot is tried.  An exception that is not caught leaves the loop in the state in
  which it was raised; what is destroyed after that is outside the loop.
\<close>

fun init_lasers ::
  "'f float_ops \<Rightarrow> int list \<Rightarrow> 'd serial \<Rightarrow> (string \<times> 'f laser) list \<Rightarrow> string list \<Rightarrow>
     (exn + (string \<times> 'f laser) list) \<times> 'd serial \<times> string list" where
  "init_lasers fl [] s lasers logged = (Inr lasers, s, logged)"
| "init_lasers fl (i # slots) s lasers logged =
     (case Laser_init fl s i of
        (Inl (DeviceError m, dropped), s') \<Rightarrow>
          init_lasers fl slots (del_laser s' dropped) lasers
            (logged @ [''no '' @ laser_name i @ '' available''])
      | (Inl (AssertionError, dropped), s') \<Rightarrow> (Inl AssertionError, s', logged)
      | (Inl (ValueError, dropped), s') \<Rightarrow> (Inl ValueError, s', logged)
      | (Inr l, s') \<Rightarrow>
          init_lasers fl slots s' (dict_set lasers (laser_name i) l)
            (logged @ [''found '' @ laser_name i @ '' on VersaLase 8'']))"

text \<open>The loop as the constructor runs it: \<^verbatim>\<open>range(1, 9)\<close>, an empty dict.\<close>

definition StradusVersaLase_lasers ::
  "'f float_ops \<Rightarrow> 'd serial \<Rightarrow> (exn + (string \<times> 'f laser) list) \<times> 'd serial \<times> string list" where
  "StradusVersaLase_lasers fl s = init_lasers fl [1, 2, 3, 4, 5, 6, 7, 8] s [] []"

section \<open>Example devices\<close>

text \<open>
  Floats restricted to integral values, where parsing, multiplication and comparison
  are exact: \<^verbatim>\<open>float(b"50")\<close> is 50.0 and \<^verbatim>\<open>b"%.1f" % 50.0\<close> is \<^verbatim>\<open>b"50.0"\<close>.
\<close>

definition integral_floats :: "int float_ops" where
  "integral_floats =
     \<lparr>float_of_bytes = py_int, fmul = (\<lambda>a b. a * b), fne = (\<lambda>a b. a \<noteq> b),
      fmt_1f = (\<lambda>a. str_int a @ ''.0'')\<rparr>"

text \<open>
  A device that answers a blank line and then one content line.  The version query
  is answered, and each of the two suppression commands is echoed.  For the lasers in
  slots 2, 5 and 7 a query is answered by the command, an equals sign and the value,
  and a set command by the command alone; for every other slot, and for a command it
  does not know, the content line is empty.  \<open>ending\<close> is the terminator of the
  content line.
\<close>

definition param_value :: "bytes \<Rightarrow> bytes option" where
  "param_value name =
     (if name = ''LW'' then Some ''488''
      else if name = ''MAXP'' then Some ''100''
      else if name = ''LPS'' then Some ''50''
      else if name = ''LP'' then Some ''50''
      else if name = ''PUL'' then Some ''0''
      else if name = ''LE'' then Some ''0''
      else None)"

definition versalase_reply :: "bytes \<Rightarrow> bytes \<Rightarrow> bytes" where
  "versalase_reply ending written =
     (let cmd = butlast written in
      if cmd = ''?SPV'' then [CR, LF] @ ''?SPV=1.0'' @ ending
      else if cmd = ''ECHO=0'' \<or> cmd = ''PROMPT=0'' then [CR, LF] @ cmd @ ending
      else if take 2 cmd \<in> set [''2.'', ''5.'', ''7.''] then
        (if take 1 (drop 2 cmd) = ''?'' then
           (case param_value (drop 3 cmd) of
              None \<Rightarrow> [CR, LF] @ ending
            | Some v \<Rightarrow> [CR, LF] @ cmd @ ''='' @ v @ ending)
         else [CR, LF] @ cmd @ ending)
      else [CR, LF] @ ending)"

definition versalase :: "bytes \<Rightarrow> unit serial" where
  "versalase ending =
     \<lparr>respond = (\<lambda>d written. (versalase_reply ending written, d)), dev = (), rx = [], tx = []\<rparr>"

text \<open>
  A device that plays a script: the first write is answered by the first reply of the
  list, the second by the second, and so on; when the script is over it is silent.
\<close>

definition scripted :: "bytes list \<Rightarrow> bytes list serial" where
  "scripted replies =
     \<lparr>respond = (\<lambda>d written. case d of [] \<Rightarrow> ([], []) | r # rs \<Rightarrow> (r, rs)),
      dev = replies, rx = [], tx = []\<rparr>"

text \<open>A device that answers every write with the same bytes.\<close>

definition constant_device :: "bytes \<Rightarrow> unit serial" where
  "constant_device reply = \<lparr>respond = (\<lambda>d written. (reply, d)), dev = (), rx = [], tx = []\<rparr>"

text \<open>The laser of slot 2 as its constructor leaves it on the device above.\<close>

definition laser2 :: "int laser" where
  "laser2 = \<lparr>conn = \<lparr>param_prefix = ''2.''\<rparr>, max_power = 100, save_power = 50,
     track_digital_modulation = False\<rparr>"

section \<open>The codec as the specification words it\<close>

text \<open>
  Section 4.2 of the specification, steps 6 to 8, in its own words: an empty or bare
  CR LF answer is rejected; an answer that ends with CR CR LF, and otherwise one that
  ends with CR LF, gives the body that is left when the echoed command and one
  separator byte are stripped from the front and the terminator from the back, or the
  echoed command when that body is empty.
\<close>

datatype decoded = Rejected | Payload bytes | Unrecognised

definition strip_front :: "nat \<Rightarrow> bytes \<Rightarrow> bytes" where
  "strip_front n b = drop n b"

definition strip_back :: "nat \<Rightarrow> bytes \<Rightarrow> bytes" where
  "strip_back n b = rev (drop n (rev b))"

definition spec_payload :: "bytes \<Rightarrow> bytes \<Rightarrow> bytes \<Rightarrow> bytes" where
  "spec_payload terminator cmd answer =
     (let body = strip_back (length terminator) (strip_front (length cmd + 1) answer)
      in if body = [] then take (length cmd) answer else body)"

definition spec_decode :: "bytes \<Rightarrow> bytes \<Rightarrow> decoded" where
  "spec_decode cmd answer =
     (if answer = [] \<or> answer = CRLF then Rejected
      else if endswith answer CRCRLF then Payload (spec_payload CRCRLF cmd answer)
      else if endswith answer CRLF then Payload (spec_payload CRLF cmd answer)
      else Unrecognised)"

text \<open>
  The test reply of the framing round trip: the payload and a terminator, after the
  echoed command and a separator byte when \<open>echo\<close> gives them.
\<close>

definition test_reply :: "(bytes \<times> char) option \<Rightarrow> bytes \<Rightarrow> bytes \<Rightarrow> bytes" where
  "test_reply echo payload terminator =
     (case echo of
        None \<Rightarrow> payload @ terminator
      | Some (cmd, separator) \<Rightarrow> cmd @ [separator] @ payload @ terminator)"

section \<open>Outcomes of discovery\<close>












section \<open>Properties\<close>

subsection \<open>Slices and terminators\<close>

lemma py_tail_endswith: "p \<noteq> [] \<Longrightarrow> (py_tail (length p) xs = p) = endswith xs p"
proof -
  assume ne: "p \<noteq> []"
  have "drop (length xs - length p) xs = p \<Longrightarrow> length p \<le> length xs"
  proof -
    assume "drop (length xs - length p) xs = p"
    then have "length (drop (length xs - length p) xs) = length p" by simp
    then show ?thesis using ne by (cases "length p \<le> length xs") auto
  qed
  then show ?thesis using ne by (auto simp: py_tail_def endswith_def)
qed

lemma py_slice_strip: "py_slice a k xs = strip_back k (strip_front a xs)"
  by (simp add: py_slice_def strip_back_def strip_front_def drop_rev drop_take add.commute)

lemma py_tail_CRCRLF: "(py_tail 3 answer = [CR, CR, LF]) = endswith answer CRCRLF"
  using py_tail_endswith [of CRCRLF answer] by (simp add: CRCRLF_def eval_nat_numeral)

lemma py_tail_CRLF: "(py_tail 2 answer = [CR, LF]) = endswith answer CRLF"
  using py_tail_endswith [of CRLF answer] by (simp add: CRLF_def eval_nat_numeral)

lemma decode_answer_spec:
  "decode_answer cmd answer =
     (case spec_decode cmd answer of
        Rejected \<Rightarrow> Inl (DeviceError (''Failed to set command '' @ bytes_repr answer))
      | Payload p \<Rightarrow> Inr p
      | Unrecognised \<Rightarrow> Inl AssertionError)"
proof -
  have len: "length CRCRLF = 3" "length CRLF = 2"
    by (simp_all add: CRCRLF_def CRLF_def)
  show ?thesis
    unfolding decode_answer_def spec_decode_def spec_payload_def Let_def
      py_tail_CRCRLF py_tail_CRLF py_slice_strip len
    by (auto simp: CRLF_def)
qed

subsection \<open>The codec\<close>

text \<open>
  Claim C1.  Whatever the command and whatever answer the transaction reads back,
  \<^verbatim>\<open>_command\<close> returns what steps 6 to 8 of section 4.2 of the specification
  describe (\<open>spec_decode\<close>): an empty or bare CR LF answer raises the module's
  \<^verbatim>\<open>DeviceError\<close> (the failure the specification calls a rejected command) and
  no payload is returned; an answer ending with CR CR LF, tested first, and otherwise
  one ending with CR LF, returns the answer without its first \<open>len(command) + 1\<close>
  bytes and without the terminator, or the first \<open>len(command)\<close> bytes of the answer
  when nothing is left.  The shape is read off the trailing bytes only.  An answer
  of neither shape fails the assertion.
\<close>

theorem command_decode:
  assumes "transact s cmd = (answer, s')"
  shows "command s cmd =
     (case spec_decode cmd answer of
        Rejected \<Rightarrow> Inl (DeviceError (''Failed to set command '' @ bytes_repr answer))
      | Payload p \<Rightarrow> Inr p
      | Unrecognised \<Rightarrow> Inl AssertionError, s')"
  using assms by (simp add: command_def decode_answer_spec)

lemma transact_versalase_LW:
  "fst (transact (versalase CRCRLF) ''2.?LW'') = ''2.?LW=488'' @ CRCRLF"
  by code_simp

lemma transact_versalase_DELAY:
  "fst (transact (versalase CRLF) ''2.DELAY=0'') = ''2.DELAY=0'' @ CRLF"
  by code_simp

lemma transact_versalase_absent:
  "fst (transact (versalase CRLF) ''1.?LW'') = CRLF"
  by code_simp

theorem command_decode_witness:
  "fst (command (versalase CRCRLF) ''2.?LW'') = Inr ''488'' \<and>
   fst (command (versalase CRLF) ''2.DELAY=0'') = Inr ''2.DELAY=0'' \<and>
   fst (command (versalase CRLF) ''1.?LW'') =
     Inl (DeviceError (''Failed to set command b'' @ [QUOTE, BACKSLASH, CHR ''r'',
       BACKSLASH, CHR ''n'', QUOTE]))"
proof -
  have "spec_decode ''2.?LW'' (''2.?LW=488'' @ CRCRLF) = Payload ''488''"
    by code_simp
  then have a: "fst (command (versalase CRCRLF) ''2.?LW'') = Inr ''488''"
    using command_decode [OF surjective_pairing, of "versalase CRCRLF" "''2.?LW''"]
    by (simp add: transact_versalase_LW)
  have "spec_decode ''2.DELAY=0'' (''2.DELAY=0'' @ CRLF) = Payload ''2.DELAY=0''"
    by code_simp
  then have b: "fst (command (versalase CRLF) ''2.DELAY=0'') = Inr ''2.DELAY=0''"
    using command_decode [OF surjective_pairing, of "versalase CRLF" "''2.DELAY=0''"]
    by (simp add: transact_versalase_DELAY)
  have "spec_decode ''1.?LW'' CRLF = Rejected"
    by code_simp
  moreover have "bytes_repr CRLF = [CHR ''b'', QUOTE, BACKSLASH, CHR ''r'', BACKSLASH, CHR ''n'', QUOTE]"
    by code_simp
  ultimately have c: "fst (command (versalase CRLF) ''1.?LW'') =
     Inl (DeviceError (''Failed to set command b'' @ [QUOTE, BACKSLASH, CHR ''r'',
       BACKSLASH, CHR ''n'', QUOTE]))"
    using command_decode [OF surjective_pairing, of "versalase CRLF" "''1.?LW''"]
    by (simp add: transact_versalase_absent)
  show ?thesis using a b c by simp
qed

subsection \<open>The framing round trip\<close>

lemma endswith_append: "endswith (xs @ p) p"
  by (simp add: endswith_def)

lemma endswith_append_iff: "length p = length q \<Longrightarrow> endswith (xs @ q) p = (q = p)"
  by (auto simp: endswith_def)

lemma strip_echo:
  "strip_back (length t) (strip_front (length cmd + 1) (cmd @ [c] @ payload @ t)) = payload"
  by (simp add: strip_back_def strip_front_def)

text \<open>
  Claim C3, as amended.  The round trip holds for a reply that carries the echoed
  command and one separator byte, and a payload that is not empty: with the
  terminator CR CR LF for every such payload, with the terminator CR LF for every
  such payload that does not end in CR.  Decoding then returns exactly the payload.
\<close>

theorem framing_round_trip:
  assumes "payload \<noteq> []"
    and "terminator = CRCRLF \<or> (terminator = CRLF \<and> last payload \<noteq> CR)"
  shows "decode_answer cmd (test_reply (Some (cmd, separator)) payload terminator) = Inr payload"
proof -
  let ?answer = "cmd @ [separator] @ payload @ terminator"
  have ne: "?answer \<noteq> []" "?answer \<noteq> CRLF"
    using assms by (auto simp: CRLF_def CRCRLF_def append_eq_Cons_conv Cons_eq_append_conv)
  have body: "spec_payload terminator cmd ?answer = payload"
    unfolding spec_payload_def strip_echo using assms(1) by simp
  from assms(2) have "spec_decode cmd ?answer = Payload payload"
  proof
    assume t: "terminator = CRCRLF"
    have "endswith ((cmd @ [separator] @ payload) @ CRCRLF) CRCRLF" by (rule endswith_append)
    then show ?thesis using ne body t by (simp add: spec_decode_def)
  next
    assume t: "terminator = CRLF \<and> last payload \<noteq> CR"
    obtain ys y where p: "payload = ys @ [y]" using assms(1) by (metis append_butlast_last_id)
    with t have y: "y \<noteq> CR" by simp
    have "?answer = (cmd @ [separator] @ ys) @ [y, CR, LF]" using t p by (simp add: CRLF_def)
    then have "endswith ?answer CRCRLF = ([y, CR, LF] = CRCRLF)"
      using endswith_append_iff [of CRCRLF "[y, CR, LF]" "cmd @ [separator] @ ys"]
      by (simp add: CRCRLF_def)
    then have no3: "\<not> endswith ?answer CRCRLF" using y by (simp add: CRCRLF_def)
    have "endswith ((cmd @ [separator] @ payload) @ CRLF) CRLF" by (rule endswith_append)
    then have "endswith ?answer CRLF" using t by simp
    then show ?thesis using ne body t no3 by (simp add: spec_decode_def)
  qed
  then show ?thesis by (simp add: decode_answer_spec test_reply_def)
qed

theorem framing_round_trip_witness:
  "decode_answer ''2.?LW'' (test_reply (Some (''2.?LW'', CHR ''='')) ''488'' CRCRLF) = Inr ''488'' \<and>
   decode_answer ''2.?LW'' (test_reply (Some (''2.?LW'', CHR ''='')) ''488'' CRLF) = Inr ''488''"
  using framing_round_trip [of "''488''" CRCRLF "''2.?LW''" "CHR ''=''"]
    framing_round_trip [of "''488''" CRLF "''2.?LW''" "CHR ''=''"]
  by (simp add: CRLF_def CRCRLF_def)

text \<open>
  Claim C3 as stated fails in three ways.  Without the echo the decoder still strips
  \<open>len(command) + 1\<close> bytes: the payload \<^verbatim>\<open>b"488000"\<close> for the command \<^verbatim>\<open>b"?LW"\<close>
  comes back as \<^verbatim>\<open>b"00"\<close>.  An empty payload comes back as the echoed command.  A
  payload that ends in CR, sent with the terminator CR LF, is read as the CR CR LF
  shape and loses its last byte.
\<close>

theorem framing_round_trip_counterexample:
  "decode_answer ''?LW'' (test_reply None ''488000'' CRLF) = Inr ''00'' \<and>
   decode_answer ''?LW'' (test_reply None ''488000'' CRLF) \<noteq> Inr ''488000'' \<and>
   decode_answer ''?LW'' (test_reply (Some (''?LW'', CHR ''='')) [] CRCRLF) = Inr ''?LW'' \<and>
   decode_answer ''?LW'' (test_reply (Some (''?LW'', CHR ''='')) [] CRCRLF) \<noteq> Inr [] \<and>
   decode_answer ''?LW'' (test_reply (Some (''?LW'', CHR ''='')) (''4'' @ [CR]) CRLF) = Inr ''4'' \<and>
   decode_answer ''?LW'' (test_reply (Some (''?LW'', CHR ''='')) (''4'' @ [CR]) CRLF)
     \<noteq> Inr (''4'' @ [CR])"
  by code_simp

subsection \<open>What a call writes\<close>

lemma serial_read_until_tx: "serial_read_until s e = (line, s') \<Longrightarrow> tx s' = tx s"
  by (auto simp: serial_read_until_def split: prod.splits)

lemma serial_readline_tx: "serial_readline s = (line, s') \<Longrightarrow> tx s' = tx s"
  by (simp add: serial_readline_def serial_read_until_tx)

lemma serial_write_tx: "tx (serial_write s b) = tx s @ [b]"
  by (simp add: serial_write_def split: prod.splits)

lemma transact_tx: "transact s cmd = (answer, s') \<Longrightarrow> tx s' = tx s @ [cmd @ [CR]]"
  by (auto simp: transact_def serial_write_tx split: prod.splits
      dest!: serial_read_until_tx serial_readline_tx)

lemma command_tx: "command s cmd = (r, s') \<Longrightarrow> tx s' = tx s @ [cmd @ [CR]]"
  by (auto simp: command_def split: prod.splits dest: transact_tx)

lemma param_command_tx:
  "param_command s name val = (r, s') \<Longrightarrow> tx s' = tx s @ [name @ ''='' @ val @ [CR]]"
  by (auto simp: param_command_def split: prod.splits sum.splits dest: command_tx)

lemma laser_command_tx:
  "laser_command s lc name val = (r, s') \<Longrightarrow>
     tx s' = tx s @ [param_prefix lc @ name @ ''='' @ val @ [CR]]"
  by (auto simp: laser_command_def dest: param_command_tx)

lemma laser_query_tx:
  "laser_query s lc name = (r, s') \<Longrightarrow> tx s' = tx s @ [param_prefix lc @ ''?'' @ name @ [CR]]"
  by (auto simp: laser_query_def dest: command_tx)

lemma converted_tx:
  "converted conv (laser_query s lc name) = (r, s') \<Longrightarrow>
     tx s' = tx s @ [param_prefix lc @ ''?'' @ name @ [CR]]"
  by (cases "laser_query s lc name")
    (auto simp: converted_def split: sum.splits dest: laser_query_tx)

subsection \<open>The handshake\<close>

text \<open>
  Claim C7.  When the first line read after the version query is not exactly CR LF,
  or the second line does not start with \<^verbatim>\<open>?SPV=\<close>, the constructor of the
  connection raises the module's \<^verbatim>\<open>DeviceError\<close> (not a Vortran laser device, or
  not a Vortran VersaLase device: the handshake failure of the specification), and
  the version query is all it has written: neither \<^verbatim>\<open>ECHO=0\<close> nor \<^verbatim>\<open>PROMPT=0\<close>
  reaches the device.
\<close>

theorem handshake_rejection:
  assumes "serial_readline (serial_write (serial_readlines s) (''?SPV'' @ [CR])) = (line1, s2)"
    and "serial_readline s2 = (line2, s3)"
    and "line1 \<noteq> CRLF \<or> \<not> startswith line2 ''?SPV=''"
  shows "VersaLaseConnection_init s =
           (if line1 \<noteq> CRLF then (Inl (DeviceError ''not a Vortran Laser device''), s2)
            else (Inl (DeviceError ''not a Vortran VersaLase device''), s3)) \<and>
         tx (snd (VersaLaseConnection_init s)) = tx s @ [''?SPV'' @ [CR]]"
proof -
  have w: "tx (serial_write (serial_readlines s) (''?SPV'' @ [CR])) = tx s @ [''?SPV'' @ [CR]]"
    by (simp add: serial_write_tx serial_readlines_def)
  have t2: "tx s2 = tx s @ [''?SPV'' @ [CR]]"
    using serial_readline_tx [OF assms(1)] w by simp
  have t3: "tx s3 = tx s @ [''?SPV'' @ [CR]]"
    using serial_readline_tx [OF assms(2)] t2 by simp
  have r: "VersaLaseConnection_init s =
           (if line1 \<noteq> CRLF then (Inl (DeviceError ''not a Vortran Laser device''), s2)
            else (Inl (DeviceError ''not a Vortran VersaLase device''), s3))"
    using assms by (auto simp: VersaLaseConnection_init_def CRLF_def)
  show ?thesis using r t2 t3 by simp
qed

theorem handshake_rejection_witness:
  "fst (VersaLaseConnection_init (constant_device ''X'')) =
     Inl (DeviceError ''not a Vortran Laser device'') \<and>
   tx (snd (VersaLaseConnection_init (constant_device ''X''))) = [''?SPV'' @ [CR]] \<and>
   fst (VersaLaseConnection_init (scripted [CRLF @ ''hello'' @ CRLF])) =
     Inl (DeviceError ''not a Vortran VersaLase device'') \<and>
   tx (snd (VersaLaseConnection_init (scripted [CRLF @ ''hello'' @ CRLF]))) = [''?SPV'' @ [CR]]"
proof -
  let ?a = "constant_device ''X''"
  let ?b = "scripted [CRLF @ ''hello'' @ CRLF]"
  let ?line1 = "\<lambda>s. serial_readline (serial_write (serial_readlines s) (''?SPV'' @ [CR]))"
  have a1: "fst (?line1 ?a) = ''X''" by code_simp
  then have ha: "fst (?line1 ?a) \<noteq> CRLF \<or>
      \<not> startswith (fst (serial_readline (snd (?line1 ?a)))) ''?SPV=''"
    by (simp add: CRLF_def)
  have b1: "fst (?line1 ?b) = CRLF" by code_simp
  have "\<not> startswith (fst (serial_readline (snd (?line1 ?b)))) ''?SPV=''" by code_simp
  then have hb: "fst (?line1 ?b) \<noteq> CRLF \<or>
      \<not> startswith (fst (serial_readline (snd (?line1 ?b)))) ''?SPV=''"
    by (rule disjI2)
  have ta: "tx ?a = []" and tb: "tx ?b = []"
    by (simp_all add: constant_device_def scripted_def)
  note ra = handshake_rejection [OF surjective_pairing surjective_pairing ha]
  note rb = handshake_rejection [OF surjective_pairing surjective_pairing hb]
  have A1: "fst (VersaLaseConnection_init ?a) = Inl (DeviceError ''not a Vortran Laser device'')"
    using a1 ra [THEN conjunct1] by (simp add: CRLF_def)
  have A2: "tx (snd (VersaLaseConnection_init ?a)) = [''?SPV'' @ [CR]]"
    using ta ra [THEN conjunct2] by simp
  have B1: "fst (VersaLaseConnection_init ?b) =
      Inl (DeviceError ''not a Vortran VersaLase device'')"
    using b1 rb [THEN conjunct1] by (simp add: CRLF_def)
  have B2: "tx (snd (VersaLaseConnection_init ?b)) = [''?SPV'' @ [CR]]"
    using tb rb [THEN conjunct2] by simp
  show ?thesis using A1 A2 B1 B2 by blast
qed

subsection \<open>The gated power write\<close>

text \<open>
  Claim C5.  When the emission status reads off, \<^verbatim>\<open>_do_set_power\<close> raises the
  module's \<^verbatim>\<open>DeviceError\<close> whose message says that the power setting has been
  saved, a message no rejected command has; the saved power is the fraction times
  the cached maximum; and the port is left as the status query left it, so the status
  query is the only write and no \<^verbatim>\<open>LP=\<close> command reaches the device.
\<close>

theorem gated_power_write:
  assumes "get_emission_status s (conn l) = (Inr False, s1)"
  shows "do_set_power fl s l pw =
           (Inl (DeviceError
              ''Failed to set power, laser is not enabled. But power setting has been saved''),
            s1, l\<lparr>save_power := fmul fl pw (max_power l)\<rparr>) \<and>
         tx s1 = tx s @ [param_prefix (conn l) @ ''?LE'' @ [CR]] \<and>
         (\<forall>answer. ''Failed to set power, laser is not enabled. But power setting has been saved''
            \<noteq> ''Failed to set command '' @ bytes_repr answer)"
proof -
  have "tx s1 = tx s @ [param_prefix (conn l) @ ''?LE'' @ [CR]]"
    using converted_tx [of parse_bool s "conn l" "''LE''"] assms
    by (simp add: get_emission_status_def)
  then show ?thesis using assms by (simp add: do_set_power_def)
qed

theorem gated_power_write_witness:
  "fst (do_set_power integral_floats (versalase CRLF) laser2 1) =
     Inl (DeviceError
       ''Failed to set power, laser is not enabled. But power setting has been saved'') \<and>
   save_power (snd (snd (do_set_power integral_floats (versalase CRLF) laser2 1))) = 100 \<and>
   tx (fst (snd (do_set_power integral_floats (versalase CRLF) laser2 1))) = [''2.?LE'' @ [CR]]"
proof -
  have "fst (get_emission_status (versalase CRLF) (conn laser2)) = Inr False"
    by code_simp
  then have e: "get_emission_status (versalase CRLF) (conn laser2) =
      (Inr False, snd (get_emission_status (versalase CRLF) (conn laser2)))"
    by (simp add: prod_eq_iff)
  show ?thesis
    using gated_power_write [OF e, of integral_floats 1]
    by (simp add: laser2_def integral_floats_def versalase_def)
qed

subsection \<open>Reconciliation on enable\<close>

text \<open>
  Claim C6.  After emission-on is sent and the power setting is read: when it differs
  from the saved power, \<^verbatim>\<open>_do_enable\<close> ends with the one write of the saved
  power, and the pulse mode is neither queried nor set; when it does not differ, the
  pulse mode is read, and set to the tracked value only if it differs from it: the
  command written is \<^verbatim>\<open>PUL=1\<close> for a tracked mode that is on and \<^verbatim>\<open>PUL=0\<close> for
  one that is off.
\<close>

theorem enable_reconciles_one_field:
  fixes s :: "'d serial"
  assumes "set_emission s (conn l) True = (Inr (), s1)"
    and "get_power_setting fl s1 (conn l) = (Inr ps, s2)"
  shows "(fne fl ps (save_power l) \<longrightarrow>
            do_enable fl s l = set_power fl s2 (conn l) (save_power l) \<and>
            tx (snd (do_enable fl s l)) =
              tx s @ [param_prefix (conn l) @ ''LE=1'' @ [CR],
                      param_prefix (conn l) @ ''?LPS'' @ [CR],
                      param_prefix (conn l) @ ''LP='' @ fmt_1f fl (save_power l) @ [CR]]) \<and>
         (\<not> fne fl ps (save_power l) \<longrightarrow>
            (\<forall>pm s3. get_pulse_mode s2 (conn l) = (Inr pm, s3) \<longrightarrow>
               do_enable fl s l =
                 (if pm \<noteq> track_digital_modulation l
                    then set_pulse_mode s3 (conn l) (track_digital_modulation l)
                  else (Inr (), s3)) \<and>
               tx (snd (do_enable fl s l)) =
                 tx s @ [param_prefix (conn l) @ ''LE=1'' @ [CR],
                         param_prefix (conn l) @ ''?LPS'' @ [CR],
                         param_prefix (conn l) @ ''?PUL'' @ [CR]] @
                   (if pm \<noteq> track_digital_modulation l
                      then [param_prefix (conn l) @ ''PUL='' @
                              (if track_digital_modulation l then ''1'' else ''0'') @ [CR]]
                    else [])))"
proof -
  let ?p = "param_prefix (conn l)"
  have t1: "tx s1 = tx s @ [?p @ ''LE=1'' @ [CR]]"
    using laser_command_tx [of s "conn l" "''LE''" "''1''"] assms(1)
    by (simp add: set_emission_def bool_value_def)
  have t2: "tx s2 = tx s @ [?p @ ''LE=1'' @ [CR], ?p @ ''?LPS'' @ [CR]]"
    using converted_tx [of "float_of fl" s1 "conn l" "''LPS''"] assms(2) t1
    by (simp add: get_power_setting_def)
  have sp: "tx (snd (set_power fl s2 (conn l) x)) = tx s2 @ [?p @ ''LP='' @ fmt_1f fl x @ [CR]]" for x
    using laser_command_tx [OF surjective_pairing, of s2 "conn l" "''LP''" "fmt_1f fl x"]
    by (simp add: set_power_def)
  have pw: "fne fl ps (save_power l) \<Longrightarrow>
      do_enable fl s l = set_power fl s2 (conn l) (save_power l)"
    using assms by (simp add: do_enable_def)
  have pm: "\<not> fne fl ps (save_power l) \<Longrightarrow> get_pulse_mode s2 (conn l) = (Inr pm, s3) \<Longrightarrow>
      do_enable fl s l =
        (if pm \<noteq> track_digital_modulation l
           then set_pulse_mode s3 (conn l) (track_digital_modulation l)
         else (Inr (), s3))" for pm s3
    using assms by (simp add: do_enable_def)
  have t3: "get_pulse_mode s2 (conn l) = (Inr pm, s3) \<Longrightarrow>
      tx s3 = tx s2 @ [?p @ ''?PUL'' @ [CR]]" for pm s3
    using converted_tx [of parse_bool s2 "conn l" "''PUL''"] by (simp add: get_pulse_mode_def)
  have spm: "tx (snd (set_pulse_mode s3 (conn l) b)) = tx s3 @ [?p @ ''PUL='' @ bool_value b @ [CR]]"
    for s3 :: "'d serial" and b
    using laser_command_tx [OF surjective_pairing, of s3 "conn l" "''PUL''" "bool_value b"]
    by (simp add: set_pulse_mode_def)
  show ?thesis
  proof (intro conjI impI allI)
    assume d: "fne fl ps (save_power l)"
    show "do_enable fl s l = set_power fl s2 (conn l) (save_power l)" by (rule pw [OF d])
    show "tx (snd (do_enable fl s l)) =
        tx s @ [?p @ ''LE=1'' @ [CR], ?p @ ''?LPS'' @ [CR],
                ?p @ ''LP='' @ fmt_1f fl (save_power l) @ [CR]]"
      using pw [OF d] sp [of "save_power l"] t2 by simp
  next
    fix pm s3
    assume d: "\<not> fne fl ps (save_power l)"
      and g: "get_pulse_mode s2 (conn l) = (Inr pm, s3)"
    show "do_enable fl s l =
        (if pm \<noteq> track_digital_modulation l
           then set_pulse_mode s3 (conn l) (track_digital_modulation l)
         else (Inr (), s3))"
      by (rule pm [OF d g])
    show "tx (snd (do_enable fl s l)) =
        tx s @ [?p @ ''LE=1'' @ [CR], ?p @ ''?LPS'' @ [CR], ?p @ ''?PUL'' @ [CR]] @
          (if pm \<noteq> track_digital_modulation l
             then [?p @ ''PUL='' @ (if track_digital_modulation l then ''1'' else ''0'') @ [CR]]
           else [])"
      using pm [OF d g] t3 [OF g] t2 spm [of s3 "track_digital_modulation l"]
      by (simp add: bool_value_def)
  qed
qed

theorem enable_reconciles_one_field_witness:
  "tx (snd (do_enable integral_floats (versalase CRLF) (laser2\<lparr>save_power := 70\<rparr>))) =
     [''2.LE=1'' @ [CR], ''2.?LPS'' @ [CR], ''2.LP=70.0'' @ [CR]] \<and>
   tx (snd (do_enable integral_floats (versalase CRLF)
        (laser2\<lparr>track_digital_modulation := True\<rparr>))) =
     [''2.LE=1'' @ [CR], ''2.?LPS'' @ [CR], ''2.?PUL'' @ [CR], ''2.PUL=1'' @ [CR]] \<and>
   tx (snd (do_enable integral_floats
        (scripted [CRLF @ ''2.LE=1'' @ CRLF, CRLF @ ''2.?LPS=50'' @ CRLF,
           CRLF @ ''2.?PUL=1'' @ CRLF, CRLF @ ''2.PUL=0'' @ CRLF]) laser2)) =
     [''2.LE=1'' @ [CR], ''2.?LPS'' @ [CR], ''2.?PUL'' @ [CR], ''2.PUL=0'' @ [CR]] \<and>
   tx (snd (do_enable integral_floats (versalase CRLF) laser2)) =
     [''2.LE=1'' @ [CR], ''2.?LPS'' @ [CR], ''2.?PUL'' @ [CR]]"
proof -
  let ?s = "versalase CRLF"
  let ?lc = "\<lparr>param_prefix = ''2.''\<rparr>"
  let ?s1 = "snd (set_emission ?s ?lc True)"
  let ?s2 = "snd (get_power_setting integral_floats ?s1 ?lc)"
  let ?s3 = "snd (get_pulse_mode ?s2 ?lc)"
  have "fst (set_emission ?s ?lc True) = Inr ()" by code_simp
  then have e: "set_emission ?s ?lc True = (Inr (), ?s1)" by (simp add: prod_eq_iff)
  have "fst (get_power_setting integral_floats ?s1 ?lc) = Inr 50" by code_simp
  then have g: "get_power_setting integral_floats ?s1 ?lc = (Inr 50, ?s2)"
    by (simp add: prod_eq_iff)
  have "fst (get_pulse_mode ?s2 ?lc) = Inr False" by code_simp
  then have m: "get_pulse_mode ?s2 ?lc = (Inr False, ?s3)" by (simp add: prod_eq_iff)
  let ?u = "scripted [CRLF @ ''2.LE=1'' @ CRLF, CRLF @ ''2.?LPS=50'' @ CRLF,
           CRLF @ ''2.?PUL=1'' @ CRLF, CRLF @ ''2.PUL=0'' @ CRLF]"
  let ?u1 = "snd (set_emission ?u ?lc True)"
  let ?u2 = "snd (get_power_setting integral_floats ?u1 ?lc)"
  let ?u3 = "snd (get_pulse_mode ?u2 ?lc)"
  have "fst (set_emission ?u ?lc True) = Inr ()" by code_simp
  then have ue: "set_emission ?u ?lc True = (Inr (), ?u1)" by (simp add: prod_eq_iff)
  have "fst (get_power_setting integral_floats ?u1 ?lc) = Inr 50" by code_simp
  then have ug: "get_power_setting integral_floats ?u1 ?lc = (Inr 50, ?u2)"
    by (simp add: prod_eq_iff)
  have "fst (get_pulse_mode ?u2 ?lc) = Inr True" by code_simp
  then have um: "get_pulse_mode ?u2 ?lc = (Inr True, ?u3)" by (simp add: prod_eq_iff)
  have c1: "conn (laser2\<lparr>save_power := 70\<rparr>) = ?lc"
    and c2: "conn (laser2\<lparr>track_digital_modulation := True\<rparr>) = ?lc"
    and c3: "conn laser2 = ?lc"
    by (simp_all add: laser2_def)
  have ts: "tx ?s = []" by (simp add: versalase_def)
  have tu: "tx ?u = []" by (simp add: scripted_def)
  have f: "fmt_1f integral_floats 70 = ''70.0''" by code_simp
  have d1: "fne integral_floats 50 (save_power (laser2\<lparr>save_power := 70\<rparr>))"
    by (simp add: integral_floats_def)
  have d2: "\<not> fne integral_floats 50 (save_power (laser2\<lparr>track_digital_modulation := True\<rparr>))"
    by (simp add: integral_floats_def laser2_def)
  have d3: "\<not> fne integral_floats 50 (save_power laser2)"
    by (simp add: integral_floats_def laser2_def)
  note r1 = enable_reconciles_one_field [of ?s "laser2\<lparr>save_power := 70\<rparr>" ?s1
      integral_floats 50 ?s2, unfolded c1, OF e g, THEN conjunct1, THEN mp, OF d1,
      THEN conjunct2]
  note r2 = enable_reconciles_one_field [of ?s "laser2\<lparr>track_digital_modulation := True\<rparr>"
      ?s1 integral_floats 50 ?s2, unfolded c2, OF e g, THEN conjunct2, THEN mp, OF d2,
      THEN spec, THEN spec, THEN mp, OF m, THEN conjunct2]
  note r3 = enable_reconciles_one_field [of ?u laser2 ?u1 integral_floats 50 ?u2,
      unfolded c3, OF ue ug, THEN conjunct2, THEN mp, OF d3,
      THEN spec, THEN spec, THEN mp, OF um, THEN conjunct2]
  note r4 = enable_reconciles_one_field [of ?s laser2 ?s1 integral_floats 50 ?s2,
      unfolded c3, OF e g, THEN conjunct2, THEN mp, OF d3,
      THEN spec, THEN spec, THEN mp, OF m, THEN conjunct2]
  have a: "tx (snd (do_enable integral_floats ?s (laser2\<lparr>save_power := 70\<rparr>))) =
     [''2.LE=1'' @ [CR], ''2.?LPS'' @ [CR], ''2.LP=70.0'' @ [CR]]"
    using r1 by (simp add: ts f)
  have b: "tx (snd (do_enable integral_floats ?s (laser2\<lparr>track_digital_modulation := True\<rparr>))) =
     [''2.LE=1'' @ [CR], ''2.?LPS'' @ [CR], ''2.?PUL'' @ [CR], ''2.PUL=1'' @ [CR]]"
    using r2 by (simp add: ts)
  have c: "tx (snd (do_enable integral_floats ?u laser2)) =
     [''2.LE=1'' @ [CR], ''2.?LPS'' @ [CR], ''2.?PUL'' @ [CR], ''2.PUL=0'' @ [CR]]"
    using tu r3 by (simp add: laser2_def)
  have d: "tx (snd (do_enable integral_floats ?s laser2)) =
     [''2.LE=1'' @ [CR], ''2.?LPS'' @ [CR], ''2.?PUL'' @ [CR]]"
    using r4 by (simp add: ts laser2_def)
  show ?thesis using a b c d by blast
qed

subsection \<open>Numbers\<close>

text \<open>
  Claim C9, as amended.  The claim names the failure a protocol error, which for the
  codec (claim C1) is the module's \<^verbatim>\<open>DeviceError\<close>.  The numeric accessors do not
  raise it: when the answer of the query does not parse, \<^verbatim>\<open>int\<close> or \<^verbatim>\<open>float\<close>
  raises \<^verbatim>\<open>ValueError\<close>, which is not a \<^verbatim>\<open>DeviceError\<close>, and the accessor lets it
  through at once, in the state the query left.  This holds for the integer accessors
  (wavelength, operating hours, pulse power, base plate temperature) and for the
  floating-point ones (power, power setting, maximum power).  No value is returned.
\<close>

theorem numeric_parse_failure:
  "\<not> is_DeviceError ValueError \<and>
   (laser_query s lc ''LW'' = (Inr answer, s') \<and> py_int answer = None \<longrightarrow>
      get_wavelength s lc = (Inl ValueError, s')) \<and>
   (laser_query s lc ''LH'' = (Inr answer, s') \<and> py_int answer = None \<longrightarrow>
      get_operating_hours s lc = (Inl ValueError, s')) \<and>
   (laser_query s lc ''PP'' = (Inr answer, s') \<and> py_int answer = None \<longrightarrow>
      get_pulse_power s lc = (Inl ValueError, s')) \<and>
   (query s ''BPT'' = (Inr answer, s') \<and> py_int answer = None \<longrightarrow>
      base_plate_temperature s = (Inl ValueError, s')) \<and>
   (laser_query s lc ''LP'' = (Inr answer, s') \<and> float_of_bytes fl answer = None \<longrightarrow>
      get_power fl s lc = (Inl ValueError, s')) \<and>
   (laser_query s lc ''LPS'' = (Inr answer, s') \<and> float_of_bytes fl answer = None \<longrightarrow>
      get_power_setting fl s lc = (Inl ValueError, s')) \<and>
   (laser_query s lc ''MAXP'' = (Inr answer, s') \<and> float_of_bytes fl answer = None \<longrightarrow>
      get_max_power fl s lc = (Inl ValueError, s'))"
  by (simp add: get_wavelength_def get_operating_hours_def get_pulse_power_def
      base_plate_temperature_def get_power_def get_power_setting_def get_max_power_def
      converted_def int_of_bytes_def float_of_def)

theorem numeric_parse_failure_witness:
  "fst (get_wavelength (scripted [CRLF @ ''2.?LW=abc'' @ CRLF]) \<lparr>param_prefix = ''2.''\<rparr>) =
     Inl ValueError \<and>
   fst (get_power integral_floats (scripted [CRLF @ ''2.?LP=abc'' @ CRLF])
     \<lparr>param_prefix = ''2.''\<rparr>) = Inl ValueError"
proof -
  let ?lc = "\<lparr>param_prefix = ''2.''\<rparr>"
  let ?a = "scripted [CRLF @ ''2.?LW=abc'' @ CRLF]"
  let ?b = "scripted [CRLF @ ''2.?LP=abc'' @ CRLF]"
  have n: "py_int ''abc'' = None" by code_simp
  then have nf: "float_of_bytes integral_floats ''abc'' = None"
    by (simp add: integral_floats_def)
  have "fst (laser_query ?a ?lc ''LW'') = Inr ''abc''" by code_simp
  then have qa: "laser_query ?a ?lc ''LW'' = (Inr ''abc'', snd (laser_query ?a ?lc ''LW''))"
    by (simp add: prod_eq_iff)
  have "fst (laser_query ?b ?lc ''LP'') = Inr ''abc''" by code_simp
  then have qb: "laser_query ?b ?lc ''LP'' = (Inr ''abc'', snd (laser_query ?b ?lc ''LP''))"
    by (simp add: prod_eq_iff)
  have a: "fst (get_wavelength ?a ?lc) = Inl ValueError"
    using numeric_parse_failure [of ?a ?lc "''abc''" "snd (laser_query ?a ?lc ''LW'')",
        THEN conjunct2, THEN conjunct1, rule_format, OF conjI [OF qa n]]
    by simp
  have b: "fst (get_power integral_floats ?b ?lc) = Inl ValueError"
    using numeric_parse_failure [of ?b ?lc "''abc''" "snd (laser_query ?b ?lc ''LP'')"
        integral_floats, THEN conjunct2, THEN conjunct2, THEN conjunct2, THEN conjunct2,
        THEN conjunct2, THEN conjunct1, rule_format, OF conjI [OF qb nf]]
    by simp
  show ?thesis using a b by blast
qed

text \<open>
  Claim C9 as stated fails: the answer \<^verbatim>\<open>b"abc"\<close> to the wavelength query does not
  parse, and the failure of \<^verbatim>\<open>get_wavelength\<close> is not a \<^verbatim>\<open>DeviceError\<close>.
\<close>

theorem numeric_parse_failure_counterexample:
  "fst (laser_query (scripted [CRLF @ ''2.?LW=abc'' @ CRLF]) \<lparr>param_prefix = ''2.''\<rparr> ''LW'') =
     Inr ''abc'' \<and>
   py_int ''abc'' = None \<and>
   \<not> (case fst (get_wavelength (scripted [CRLF @ ''2.?LW=abc'' @ CRLF]) \<lparr>param_prefix = ''2.''\<rparr>) of
        Inl e \<Rightarrow> is_DeviceError e | Inr n \<Rightarrow> False)"
  by code_simp

subsection \<open>An answer of neither shape\<close>

lemma decode_answer_unrecognised:
  assumes "answer \<noteq> []" "answer \<noteq> CRLF" "\<not> endswith answer CRCRLF" "\<not> endswith answer CRLF"
  shows "decode_answer cmd answer = Inl AssertionError"
  using assms by (simp add: decode_answer_spec spec_decode_def)

text \<open>
  Claim C10.  An answer that is not empty, is not bare CR LF and ends with neither
  CR CR LF nor CR LF (\<^verbatim>\<open>b"X"\<close> is one) fails the assertion of \<^verbatim>\<open>_command\<close>:
  the exception is \<^verbatim>\<open>AssertionError\<close>, not \<^verbatim>\<open>DeviceError\<close>.  When such an answer
  is read for a probe of slot \<open>i\<close> during discovery, for the wavelength query or for
  the delay command after it, the \<^verbatim>\<open>except\<close> clause of the laser connection lets
  it through, the loop of the controller does not catch it, nothing is logged for the
  slot, and the loop ends with the exception in the state the probe left: no later
  slot is written to.
\<close>

theorem unrecognised_answer_aborts_discovery:
  fixes s :: "'d serial" and fl :: "'f float_ops"
  assumes "answer \<noteq> []" and "answer \<noteq> CRLF"
    and "\<not> endswith answer CRCRLF" and "\<not> endswith answer CRLF"
  shows "decode_answer cmd answer = Inl AssertionError \<and>
     \<not> is_DeviceError AssertionError \<and>
     (transact s (str_int i @ ''.?LW'') = (answer, s') \<longrightarrow>
        LaserConnection_init s i = (Inl AssertionError, s') \<and>
        init_lasers fl (i # slots) s lasers logged = (Inl AssertionError, s', logged) \<and>
        tx s' = tx s @ [str_int i @ ''.?LW'' @ [CR]]) \<and>
     (get_wavelength s \<lparr>param_prefix = str_int i @ ''.''\<rparr> = (Inr w, s1) \<and>
      transact s1 (str_int i @ ''.DELAY=0'') = (answer, s') \<longrightarrow>
        LaserConnection_init s i = (Inl AssertionError, s') \<and>
        init_lasers fl (i # slots) s lasers logged = (Inl AssertionError, s', logged) \<and>
        tx s' = tx s @ [str_int i @ ''.?LW'' @ [CR], str_int i @ ''.DELAY=0'' @ [CR]])"
proof -
  let ?lc = "\<lparr>param_prefix = str_int i @ ''.''\<rparr>"
  have dec: "decode_answer c answer = Inl AssertionError" for c
    using assms by (rule decode_answer_unrecognised)
  have abort: "init_lasers fl (i # slots) s lasers logged = (Inl AssertionError, s', logged)"
    if "LaserConnection_init s i = (Inl AssertionError, s')" for s'
    using that by (simp add: Laser_init_def)
  have first: "LaserConnection_init s i = (Inl AssertionError, s') \<and>
        init_lasers fl (i # slots) s lasers logged = (Inl AssertionError, s', logged) \<and>
        tx s' = tx s @ [str_int i @ ''.?LW'' @ [CR]]"
    if t: "transact s (str_int i @ ''.?LW'') = (answer, s')"
  proof -
    have "get_wavelength s ?lc = (Inl AssertionError, s')"
      using t dec by (simp add: get_wavelength_def laser_query_def command_def converted_def)
    then have l: "LaserConnection_init s i = (Inl AssertionError, s')"
      by (simp add: LaserConnection_init_def no_laser_def)
    show ?thesis using l abort [OF l] transact_tx [OF t] by simp
  qed
  have second: "LaserConnection_init s i = (Inl AssertionError, s') \<and>
        init_lasers fl (i # slots) s lasers logged = (Inl AssertionError, s', logged) \<and>
        tx s' = tx s @ [str_int i @ ''.?LW'' @ [CR], str_int i @ ''.DELAY=0'' @ [CR]]"
    if g: "get_wavelength s ?lc = (Inr w, s1)"
      and t: "transact s1 (str_int i @ ''.DELAY=0'') = (answer, s')"
  proof -
    have "set_delay s1 ?lc False = (Inl AssertionError, s')"
      using t dec
      by (simp add: set_delay_def laser_command_def param_command_def command_def bool_value_def)
    then have l: "LaserConnection_init s i = (Inl AssertionError, s')"
      using g by (simp add: LaserConnection_init_def no_laser_def)
    have "tx s1 = tx s @ [str_int i @ ''.?LW'' @ [CR]]"
      using converted_tx [of int_of_bytes s ?lc "''LW''"] g by (simp add: get_wavelength_def)
    then show ?thesis using l abort [OF l] transact_tx [OF t] by simp
  qed
  show ?thesis using dec first second by simp
qed

theorem unrecognised_answer_aborts_discovery_witness:
  "fst (StradusVersaLase_lasers integral_floats (scripted [CRLF @ ''X''])) = Inl AssertionError \<and>
   tx (fst (snd (StradusVersaLase_lasers integral_floats (scripted [CRLF @ ''X''])))) =
     [''1.?LW'' @ [CR]] \<and>
   snd (snd (StradusVersaLase_lasers integral_floats (scripted [CRLF @ ''X'']))) = [] \<and>
   fst (StradusVersaLase_lasers integral_floats
     (scripted [CRLF @ ''1.?LW=488'' @ CRLF, CRLF @ ''X''])) = Inl AssertionError \<and>
   tx (fst (snd (StradusVersaLase_lasers integral_floats
     (scripted [CRLF @ ''1.?LW=488'' @ CRLF, CRLF @ ''X''])))) =
     [''1.?LW'' @ [CR], ''1.DELAY=0'' @ [CR]]"
proof -
  let ?a = "scripted [CRLF @ ''X'']"
  let ?b = "scripted [CRLF @ ''1.?LW=488'' @ CRLF, CRLF @ ''X'']"
  let ?lc = "\<lparr>param_prefix = str_int 1 @ ''.''\<rparr>"
  have h: "''X'' \<noteq> []" "''X'' \<noteq> CRLF" "\<not> endswith ''X'' CRCRLF" "\<not> endswith ''X'' CRLF"
    by (simp_all add: CRLF_def CRCRLF_def endswith_def)
  have one: "str_int 1 = ''1''" by code_simp
  have ta: "tx ?a = []" and tb: "tx ?b = []" by (simp_all add: scripted_def)
  have "fst (transact ?a (str_int 1 @ ''.?LW'')) = ''X''" by code_simp
  then have t1: "transact ?a (str_int 1 @ ''.?LW'') =
      (''X'', snd (transact ?a (str_int 1 @ ''.?LW'')))"
    by (simp add: prod_eq_iff)
  have "fst (get_wavelength ?b ?lc) = Inr 488" by code_simp
  then have g: "get_wavelength ?b ?lc = (Inr 488, snd (get_wavelength ?b ?lc))"
    by (simp add: prod_eq_iff)
  have "fst (transact (snd (get_wavelength ?b ?lc)) (str_int 1 @ ''.DELAY=0'')) = ''X''"
    by code_simp
  then have t2: "transact (snd (get_wavelength ?b ?lc)) (str_int 1 @ ''.DELAY=0'') =
      (''X'', snd (transact (snd (get_wavelength ?b ?lc)) (str_int 1 @ ''.DELAY=0'')))"
    by (simp add: prod_eq_iff)
  note r = unrecognised_answer_aborts_discovery [OF h, where i = 1 and fl = integral_floats
      and slots = "[2, 3, 4, 5, 6, 7, 8]" and lasers = "[]" and logged = "[]"]
  note ra = r [where s = ?a, THEN conjunct2, THEN conjunct2, THEN conjunct1, THEN mp, OF t1,
      THEN conjunct2]
  note rb = r [where s = ?b, THEN conjunct2, THEN conjunct2, THEN conjunct2, THEN mp,
      OF conjI [OF g t2], THEN conjunct2]
  have ea: "StradusVersaLase_lasers integral_floats ?a =
      (Inl AssertionError, snd (transact ?a (str_int 1 @ ''.?LW'')), [])"
    unfolding StradusVersaLase_lasers_def by (rule ra [THEN conjunct1])
  have eb: "StradusVersaLase_lasers integral_floats ?b =
      (Inl AssertionError,
       snd (transact (snd (get_wavelength ?b ?lc)) (str_int 1 @ ''.DELAY=0'')), [])"
    unfolding StradusVersaLase_lasers_def by (rule rb [THEN conjunct1])
  have a: "fst (StradusVersaLase_lasers integral_floats ?a) = Inl AssertionError \<and>
      tx (fst (snd (StradusVersaLase_lasers integral_floats ?a))) = [''1.?LW'' @ [CR]] \<and>
      snd (snd (StradusVersaLase_lasers integral_floats ?a)) = []"
    using ta ea ra [THEN conjunct2] by (simp add: one)
  have b: "fst (StradusVersaLase_lasers integral_floats ?b) = Inl AssertionError \<and>
      tx (fst (snd (StradusVersaLase_lasers integral_floats ?b))) =
        [''1.?LW'' @ [CR], ''1.DELAY=0'' @ [CR]]"
    using tb eb rb [THEN conjunct2] by (simp add: one)
  show ?thesis using a b by blast
qed

subsection \<open>Discovery\<close>

















subsection \<open>Booleans\<close>

text \<open>
  Claim C8.  \<^verbatim>\<open>_parse_bool\<close> returns true exactly for \<^verbatim>\<open>b"1"\<close> and false exactly
  for \<^verbatim>\<open>b"0"\<close>; every other reply fails the assertion, and is never read as true or
  false.
\<close>

theorem parse_bool_exact:
  "(parse_bool answer = Inr True) = (answer = ''1'') \<and>
   (parse_bool answer = Inr False) = (answer = ''0'') \<and>
   (parse_bool answer = Inl AssertionError) = (answer \<noteq> ''0'' \<and> answer \<noteq> ''1'')"
  by (auto simp: parse_bool_def)

theorem parse_bool_exact_witness: "parse_bool ''2'' = Inl AssertionError"
  using parse_bool_exact [of "''2''"] by simp

end
